theory Spec2Isabelle
  imports Main
begin

section \<open>JavaScript objects with optional properties\<close>

text \<open>
  The dashboard code builds its update payloads with object spread,
  \<^verbatim>\<open>{...a, ...b}\<close>. Spread copies the own properties of \<open>b\<close> over those of
  \<open>a\<close>, and a property of \<open>b\<close> whose value is \<^verbatim>\<open>undefined\<close> still overrides the
  one of \<open>a\<close>. A property therefore has three states: the key is absent, the key is
  present with the value \<^verbatim>\<open>undefined\<close>, or the key is present with a value.
\<close>

datatype 'a property = Absent | Undefined | Value 'a

text \<open>Reading \<^verbatim>\<open>o.k\<close>: an absent key and an undefined value both read as \<^verbatim>\<open>undefined\<close>
  (\<open>None\<close>).\<close>

definition get_prop :: "'a property \<Rightarrow> 'a option" where
  "get_prop p = (case p of Value v \<Rightarrow> Some v | Undefined \<Rightarrow> None | Absent \<Rightarrow> None)"

text \<open>One key of \<^verbatim>\<open>{...a, ...b}\<close>.\<close>

definition spread_prop :: "'a property \<Rightarrow> 'a property \<Rightarrow> 'a property" where
  "spread_prop a b = (case b of Absent \<Rightarrow> a | Undefined \<Rightarrow> Undefined | Value v \<Rightarrow> Value v)"

text \<open>An object literal entry \<^verbatim>\<open>{k: e}\<close> (or the shorthand \<^verbatim>\<open>{k}\<close>) where \<open>e\<close> may
  evaluate to \<^verbatim>\<open>undefined\<close>: the key is present in either case.\<close>

definition entry :: "'a option \<Rightarrow> 'a property" where
  "entry v = (case v of None \<Rightarrow> Undefined | Some x \<Rightarrow> Value x)"

text \<open>Truthiness of a \<^verbatim>\<open>string | undefined\<close>: \<^verbatim>\<open>undefined\<close> and the empty string are
  falsy.\<close>

definition truthy_string :: "string option \<Rightarrow> bool" where
  "truthy_string s = (case s of None \<Rightarrow> False | Some x \<Rightarrow> x \<noteq> [])"

text \<open>Truthiness of a \<^verbatim>\<open>boolean | undefined\<close>.\<close>

definition truthy_bool :: "bool option \<Rightarrow> bool" where
  "truthy_bool b = (case b of None \<Rightarrow> False | Some x \<Rightarrow> x)"

text \<open>\<^verbatim>\<open>b ?? false\<close>.\<close>

definition or_false :: "bool option \<Rightarrow> bool" where
  "or_false b = (case b of None \<Rightarrow> False | Some x \<Rightarrow> x)"


section \<open>Organization settings\<close>

text \<open>
  Modelled from the spec: the message types \<^verbatim>\<open>OrganizationSettings\<close>,
  \<^verbatim>\<open>OnboardingSettings\<close> and \<^verbatim>\<open>OnboardingSettings_WelcomeMessage\<close> are imported from
  \<^verbatim>\<open>@gitpod/public-api\<close> and are not part of the sources at hand. Their fields are
  those of the data model of the specification together with
  \<^verbatim>\<open>recommendedRepositories\<close>, which the code reads. Every other top-level field of the
  settings object is kept in \<open>otherSettings\<close>, a map from the field's name to its
  value, of a type left open.
\<close>

record WelcomeMessage =
  enabled :: "bool property"
  message :: "string property"
  featuredMemberId :: "string property"
  featuredMemberResolvedAvatarUrl :: "string property"

record OnboardingSettings =
  internalLink :: "string property"
  welcomeMessage :: "WelcomeMessage property"
  recommendedRepositories :: "string list property"

record 'o OrganizationSettings =
  onboardingSettings :: "OnboardingSettings property"
  otherSettings :: "string \<rightharpoonup> 'o"

text \<open>The empty objects \<^verbatim>\<open>{}\<close>.\<close>

definition empty_WelcomeMessage :: WelcomeMessage where
  "empty_WelcomeMessage =
     \<lparr>enabled = Absent, message = Absent, featuredMemberId = Absent,
      featuredMemberResolvedAvatarUrl = Absent\<rparr>"

definition empty_OrganizationSettings :: "'o OrganizationSettings" where
  "empty_OrganizationSettings = \<lparr>onboardingSettings = Absent, otherSettings = Map.empty\<rparr>"

text \<open>\<^verbatim>\<open>{...a, ...b}\<close> on welcome messages and on settings objects. The merge is
  shallow: a key of \<open>b\<close> replaces the whole value of that key in \<open>a\<close>.\<close>

definition spread_WelcomeMessage :: "WelcomeMessage \<Rightarrow> WelcomeMessage \<Rightarrow> WelcomeMessage" where
  "spread_WelcomeMessage a b =
     \<lparr>enabled = spread_prop (enabled a) (enabled b),
      message = spread_prop (message a) (message b),
      featuredMemberId = spread_prop (featuredMemberId a) (featuredMemberId b),
      featuredMemberResolvedAvatarUrl =
        spread_prop (featuredMemberResolvedAvatarUrl a) (featuredMemberResolvedAvatarUrl b)\<rparr>"

definition spread_OrganizationSettings ::
  "'o OrganizationSettings \<Rightarrow> 'o OrganizationSettings \<Rightarrow> 'o OrganizationSettings" where
  "spread_OrganizationSettings a b =
     \<lparr>onboardingSettings = spread_prop (onboardingSettings a) (onboardingSettings b),
      otherSettings = otherSettings a ++ otherSettings b\<rparr>"

text \<open>Spreading \<^verbatim>\<open>undefined\<close> contributes no key.\<close>

definition spread_source_WelcomeMessage :: "WelcomeMessage option \<Rightarrow> WelcomeMessage" where
  "spread_source_WelcomeMessage w = (case w of None \<Rightarrow> empty_WelcomeMessage | Some x \<Rightarrow> x)"

definition spread_source_OrganizationSettings ::
  "'o OrganizationSettings option \<Rightarrow> 'o OrganizationSettings" where
  "spread_source_OrganizationSettings s =
     (case s of None \<Rightarrow> empty_OrganizationSettings | Some x \<Rightarrow> x)"

text \<open>The optional chains \<^verbatim>\<open>settings?.onboardingSettings\<close> and
  \<^verbatim>\<open>settings?.onboardingSettings?.welcomeMessage\<close> and the fields read through
  them.\<close>

definition onboarding_of :: "'o OrganizationSettings option \<Rightarrow> OnboardingSettings option" where
  "onboarding_of s = (case s of None \<Rightarrow> None | Some x \<Rightarrow> get_prop (onboardingSettings x))"

definition welcomeMessage_of :: "'o OrganizationSettings option \<Rightarrow> WelcomeMessage option" where
  "welcomeMessage_of s =
     (case onboarding_of s of None \<Rightarrow> None | Some ob \<Rightarrow> get_prop (welcomeMessage ob))"

definition internalLink_of :: "'o OrganizationSettings option \<Rightarrow> string option" where
  "internalLink_of s =
     (case onboarding_of s of None \<Rightarrow> None | Some ob \<Rightarrow> get_prop (internalLink ob))"

definition recommendedRepositories_of :: "'o OrganizationSettings option \<Rightarrow> string list option" where
  "recommendedRepositories_of s =
     (case onboarding_of s of None \<Rightarrow> None | Some ob \<Rightarrow> get_prop (recommendedRepositories ob))"

definition enabled_of :: "WelcomeMessage option \<Rightarrow> bool option" where
  "enabled_of w = (case w of None \<Rightarrow> None | Some x \<Rightarrow> get_prop (enabled x))"

definition message_of :: "WelcomeMessage option \<Rightarrow> string option" where
  "message_of w = (case w of None \<Rightarrow> None | Some x \<Rightarrow> get_prop (message x))"

definition featuredMemberId_of :: "WelcomeMessage option \<Rightarrow> string option" where
  "featuredMemberId_of w = (case w of None \<Rightarrow> None | Some x \<Rightarrow> get_prop (featuredMemberId x))"

definition avatarUrl_of :: "WelcomeMessage option \<Rightarrow> string option" where
  "avatarUrl_of w =
     (case w of None \<Rightarrow> None | Some x \<Rightarrow> get_prop (featuredMemberResolvedAvatarUrl x))"


section \<open>Effects\<close>

text \<open>A JavaScript \<^verbatim>\<open>Error\<close> with its message.\<close>

datatype error = Error (error_message: string)

text \<open>The two errors thrown by the guards of \<^verbatim>\<open>handleUpdateTeamSettings\<close>; the
  specification calls them \<^verbatim>\<open>NoOrganizationError\<close> and \<^verbatim>\<open>PermissionError\<close>.\<close>

definition NoOrganizationError :: error where
  "NoOrganizationError = Error ''no organization selected''"

definition PermissionError :: error where
  "PermissionError = Error ''no organization settings change permission''"

text \<open>What a handler does to the outside, in order: a call of
  \<^verbatim>\<open>updateTeamSettings.mutateAsync\<close> or \<^verbatim>\<open>updateTeamSettings.mutate\<close> with its argument,
  a toast, a \<^verbatim>\<open>console.error\<close>.\<close>

datatype 'o event =
    MutateAsync "'o OrganizationSettings"
  | Mutate "'o OrganizationSettings"
  | Toast string
  | ConsoleError error

text \<open>The arguments of the remote write calls among the events.\<close>

fun writes :: "'o event list \<Rightarrow> 'o OrganizationSettings list" where
  "writes [] = []"
| "writes (MutateAsync m # es) = m # writes es"
| "writes (Mutate m # es) = m # writes es"
| "writes (Toast t # es) = writes es"
| "writes (ConsoleError e # es) = writes es"

text \<open>
  Modelled from the spec: the remote SettingsStore is external. Its state, of a type
  left open, changes only when a write call reaches it; how it applies a write is the
  parameter \<open>store\<close>.
\<close>

fun remote_after :: "('o OrganizationSettings \<Rightarrow> 'r \<Rightarrow> 'r) \<Rightarrow> 'o event list \<Rightarrow> 'r \<Rightarrow> 'r" where
  "remote_after store [] r = r"
| "remote_after store (MutateAsync m # es) r = remote_after store es (store m r)"
| "remote_after store (Mutate m # es) r = remote_after store es (store m r)"
| "remote_after store (Toast t # es) r = remote_after store es r"
| "remote_after store (ConsoleError e # es) r = remote_after store es r"


section \<open>TeamOnboardingPage: handleUpdateTeamSettings\<close>

text \<open>
  What the hooks of a render return: \<^verbatim>\<open>useCurrentOrg().data?.id\<close>, \<^verbatim>\<open>useIsOwner()\<close>,
  \<^verbatim>\<open>useOrgSettingsQuery().data\<close> (the last-known settings snapshot, \<^verbatim>\<open>undefined\<close> until
  loaded) and the outcome of \<^verbatim>\<open>useUpdateOrgSettingsMutation().mutateAsync\<close> on an
  argument: it rejects with an error (\<open>Inl\<close>) or resolves with the stored settings
  (\<open>Inr\<close>). The mutation hook is external, so its outcome is a parameter.
\<close>

record 'o hooks =
  org_id :: "string option"
  isOwner :: bool
  settings :: "'o OrganizationSettings option"
  mutateAsync :: "'o OrganizationSettings \<Rightarrow> error + 'o OrganizationSettings"

text \<open>The second argument \<^verbatim>\<open>options?: { throwMutateError?: boolean }\<close>.\<close>

record options =
  throwMutateError :: "bool option"

definition throws :: "options option \<Rightarrow> bool" where
  "throws opts = (case opts of None \<Rightarrow> False | Some x \<Rightarrow> truthy_bool (throwMutateError x))"

text \<open>
  \<^verbatim>\<open>handleUpdateTeamSettings(newSettings, options)\<close>. The result is the outcome of the
  promise (\<open>Inl\<close>: rejected with the error, \<open>Inr\<close>: resolved) and the events in order.
\<close>

definition handleUpdateTeamSettings ::
  "'o hooks \<Rightarrow> 'o OrganizationSettings \<Rightarrow> options option \<Rightarrow> (error + unit) \<times> 'o event list" where
  "handleUpdateTeamSettings h newSettings opts =
     (if \<not> truthy_string (org_id h) then (Inl (Error ''no organization selected''), [])
      else if \<not> isOwner h then (Inl (Error ''no organization settings change permission''), [])
      else
        (let merged =
           spread_OrganizationSettings (spread_source_OrganizationSettings (settings h)) newSettings
         in case mutateAsync h merged of
              Inr stored \<Rightarrow> (Inr (), [MutateAsync merged, Toast ''Organization settings updated''])
            | Inl err \<Rightarrow>
                if throws opts then (Inl err, [MutateAsync merged])
                else (Inr (),
                      [MutateAsync merged,
                       Toast (''Failed to update organization settings: '' @ error_message err),
                       ConsoleError err])))"


text \<open>\<^verbatim>\<open>handleUpdateInternalLink\<close>: the submit handler of the internal-link form, on the
  current value of the input (\<^verbatim>\<open>string | undefined\<close>).\<close>

definition handleUpdateInternalLink ::
  "'o hooks \<Rightarrow> string option \<Rightarrow> (error + unit) \<times> 'o event list" where
  "handleUpdateInternalLink h internalLink_input =
     handleUpdateTeamSettings h
       \<lparr>onboardingSettings =
          Value \<lparr>internalLink = entry internalLink_input, welcomeMessage = Absent,
                 recommendedRepositories = Absent\<rparr>,
        otherSettings = Map.empty\<rparr>
       None"


section \<open>TeamOnboardingPage: the internal-link input\<close>

text \<open>
  The input's value is the state \<^verbatim>\<open>useState<string | undefined>(undefined)\<close>. It is
  written by the input's \<^verbatim>\<open>onChange\<close> and by the effect
  \<^verbatim>\<open>useEffect(() => { if (settings) setInternalLink(...) }, [settings])\<close>. An effect runs
  after the first render, and after every later render in which a dependency differs
  from its value at the previous render. React compares dependencies with
  \<^verbatim>\<open>Object.is\<close>: two settings objects are the same dependency only when they are the
  same object, whatever they contain, and \<^verbatim>\<open>undefined\<close> is the same as \<^verbatim>\<open>undefined\<close>.
  The settings that the query returns at a render are therefore an object with an
  identity: a reference and the content found there. Which reference a refetch
  delivers is decided by the query hook, which is external.
\<close>

type_synonym 'o settings_object = "nat \<times> 'o OrganizationSettings"

text \<open>\<open>link_deps\<close> is the dependency of the previous render: the reference of its
  settings object, or \<open>None\<close> for \<^verbatim>\<open>undefined\<close>.\<close>

record link_state =
  link_input :: "string option"
  link_deps :: "nat option"

text \<open>The body of the effect.\<close>

definition link_effect :: "'o OrganizationSettings option \<Rightarrow> string option \<Rightarrow> string option" where
  "link_effect s current = (case s of None \<Rightarrow> current | Some x \<Rightarrow> internalLink_of (Some x))"

text \<open>The first render with its effect, a later render with the settings object the
  query returns then, and a keystroke in the input.\<close>

definition link_mount :: "'o settings_object option \<Rightarrow> link_state" where
  "link_mount s = \<lparr>link_input = link_effect (map_option snd s) None, link_deps = map_option fst s\<rparr>"

definition link_render :: "'o settings_object option \<Rightarrow> link_state \<Rightarrow> link_state" where
  "link_render s st =
     (if map_option fst s = link_deps st then st
      else \<lparr>link_input = link_effect (map_option snd s) (link_input st),
            link_deps = map_option fst s\<rparr>)"

definition link_onChange :: "string \<Rightarrow> link_state \<Rightarrow> link_state" where
  "link_onChange v st = st\<lparr>link_input := Some v\<rparr>"


section \<open>WelcomeMessageConfigurationField\<close>

text \<open>
  The field reads the same settings query as the page, so the same \<open>hooks\<close> value
  serves both. \<^verbatim>\<open>handleUpdateWelcomeMessage(newSettings)\<close> sends the welcome message of
  the snapshot overlaid with \<open>newSettings\<close>, and the recommended repositories of the
  snapshot (\<^verbatim>\<open>?? []\<close>).
\<close>

definition handleUpdateWelcomeMessage ::
  "'o hooks \<Rightarrow> WelcomeMessage \<Rightarrow> (error + unit) \<times> 'o event list" where
  "handleUpdateWelcomeMessage h newSettings =
     handleUpdateTeamSettings h
       \<lparr>onboardingSettings =
          Value \<lparr>internalLink = Absent,
                 welcomeMessage =
                   Value (spread_WelcomeMessage
                            (spread_source_WelcomeMessage (welcomeMessage_of (settings h)))
                            newSettings),
                 recommendedRepositories =
                   Value (case recommendedRepositories_of (settings h) of
                            None \<Rightarrow> [] | Some rs \<Rightarrow> rs)\<rparr>,
        otherSettings = Map.empty\<rparr>
       None"

text \<open>The argument \<^verbatim>\<open>{ enabled: checked }\<close> of the toggle.\<close>

definition enabled_only :: "bool \<Rightarrow> WelcomeMessage" where
  "enabled_only checked =
     \<lparr>enabled = Value checked, message = Absent, featuredMemberId = Absent,
      featuredMemberResolvedAvatarUrl = Absent\<rparr>"

definition setup_notice :: string where
  "setup_notice = ''Please set up a welcome message first.''"

text \<open>\<^verbatim>\<open>onCheckedChange\<close> of the switch. The handler does not await the update, so the
  outcome of the promise is dropped and the events remain.\<close>

definition onCheckedChange :: "'o hooks \<Rightarrow> bool \<Rightarrow> 'o event list" where
  "onCheckedChange h checked =
     (if checked \<and> \<not> truthy_string (message_of (welcomeMessage_of (settings h)))
      then [Toast ''Please set up a welcome message first.'']
      else snd (handleUpdateWelcomeMessage h (enabled_only checked)))"

text \<open>The earlier variant of the switch, inline in the page: it calls
  \<^verbatim>\<open>updateTeamSettings.mutate\<close> itself with the three fields written out.\<close>

definition onCheckedChange_inline :: "'o hooks \<Rightarrow> bool \<Rightarrow> 'o event list" where
  "onCheckedChange_inline h checked =
     (if checked \<and> \<not> truthy_string (message_of (welcomeMessage_of (settings h)))
      then [Toast ''Please set up a welcome message first.'']
      else [Mutate
              \<lparr>onboardingSettings =
                 Value \<lparr>internalLink = Absent,
                        welcomeMessage =
                          Value \<lparr>enabled = Value checked,
                                 message = entry (message_of (welcomeMessage_of (settings h))),
                                 featuredMemberId =
                                   entry (featuredMemberId_of (welcomeMessage_of (settings h))),
                                 featuredMemberResolvedAvatarUrl = Absent\<rparr>,
                        recommendedRepositories = Absent\<rparr>,
               otherSettings = Map.empty\<rparr>])"


section \<open>WelcomeMessageEditorModal\<close>

text \<open>
  The editor keeps the draft in two states, \<^verbatim>\<open>useState(settings?.message)\<close> and
  \<^verbatim>\<open>useState(settings?.featuredMemberId)\<close>; \<^verbatim>\<open>useState\<close> takes its argument as the
  value of the state at the first render of the component and ignores it at every
  later render. The field renders the editor component unconditionally and passes
  \<^verbatim>\<open>isOpen\<close> on to the modal as \<^verbatim>\<open>visible\<close>, so the component stays mounted while the
  modal is closed. \<open>isOpen\<close> is the state \<^verbatim>\<open>welcomeMessageEditorOpen\<close> of the field.
\<close>

record editor_state =
  isOpen :: bool
  draft_message :: "string option"
  draft_featuredMemberId :: "string option"

text \<open>The first render, with the welcome message of the settings as the query has
  them then.\<close>

definition editor_mount :: "WelcomeMessage option \<Rightarrow> editor_state" where
  "editor_mount w =
     \<lparr>isOpen = False, draft_message = message_of w,
      draft_featuredMemberId = featuredMemberId_of w\<rparr>"

text \<open>\<^verbatim>\<open>updateWelcomeMessage\<close>, the submit handler of the form.\<close>

definition updateWelcomeMessage :: "'o hooks \<Rightarrow> editor_state \<Rightarrow> (error + unit) \<times> 'o event list" where
  "updateWelcomeMessage h st =
     handleUpdateWelcomeMessage h
       \<lparr>enabled = Value (or_false (enabled_of (welcomeMessage_of (settings h)))),
        message = entry (draft_message st),
        featuredMemberId = entry (draft_featuredMemberId st),
        featuredMemberResolvedAvatarUrl = Absent\<rparr>"

text \<open>
  The user's actions on the editor: the Edit button of the preview
  (\<^verbatim>\<open>setWelcomeMessageEditorOpen(true)\<close>), the Cancel button and the modal's
  \<^verbatim>\<open>onClose\<close> (both \<^verbatim>\<open>setIsOpen(false)\<close>), typing in the text area, choosing a featured
  member or none, and submitting the form.
\<close>

datatype editor_action =
    ClickEdit
  | ClickCancel
  | ModalClose
  | ChangeMessage string
  | SetFeaturedMemberId "string option"
  | SubmitForm

text \<open>One action, under the hook values of the render it happens in: the next state
  and the events.\<close>

fun editor_step :: "'o hooks \<Rightarrow> editor_state \<Rightarrow> editor_action \<Rightarrow> editor_state \<times> 'o event list" where
  "editor_step h st ClickEdit = (st\<lparr>isOpen := True\<rparr>, [])"
| "editor_step h st ClickCancel = (st\<lparr>isOpen := False\<rparr>, [])"
| "editor_step h st ModalClose = (st\<lparr>isOpen := False\<rparr>, [])"
| "editor_step h st (ChangeMessage v) = (st\<lparr>draft_message := Some v\<rparr>, [])"
| "editor_step h st (SetFeaturedMemberId v) = (st\<lparr>draft_featuredMemberId := v\<rparr>, [])"
| "editor_step h st SubmitForm = (st, snd (updateWelcomeMessage h st))"

fun editor_run ::
  "editor_state \<Rightarrow> ('o hooks \<times> editor_action) list \<Rightarrow> editor_state \<times> 'o event list" where
  "editor_run st [] = (st, [])"
| "editor_run st ((h, a) # rest) =
     (case editor_step h st a of
        (st1, es1) \<Rightarrow> (case editor_run st1 rest of (st2, es2) \<Rightarrow> (st2, es1 @ es2)))"


section \<open>WelcomeMessagePreview\<close>

text \<open>What the preview renders, as a tree of the elements it is built from. A button
  carries its label and whether it is disabled.\<close>

datatype node =
    Div (children: "node list")
  | Heading2 string
  | Button string bool
  | Subheading string
  | Img string
  | Markdown string

text \<open>The constant \<^verbatim>\<open>gitpodWelcomeSubheading\<close>. Its apostrophe is U+2019, three bytes
  in UTF-8.\<close>

definition gitpodWelcomeSubheading :: string where
  "gitpodWelcomeSubheading =
     ''Gitpod'' @ [CHR 0xE2, CHR 0x80, CHR 0x99] @
     ''s sandboxed, ephemeral development environments enable you to use your existing tools without worrying about vulnerabilities impacting their local machines.''"

text \<open>
  \<^verbatim>\<open>WelcomeMessagePreview({ disabled, setWelcomeMessageEditorOpen, hideHeader })\<close> on
  the settings of the query. \<open>has_setter\<close> says whether the optional callback was
  passed. In JSX \<^verbatim>\<open>{c && e}\<close> renders \<open>e\<close> when \<open>c\<close> is truthy and nothing otherwise;
  a string is truthy when it is defined and not empty.
\<close>

definition WelcomeMessagePreview ::
  "'o OrganizationSettings option \<Rightarrow> bool option \<Rightarrow> bool \<Rightarrow> bool option \<Rightarrow> node" where
  "WelcomeMessagePreview s disabled has_setter hideHeader =
     (let avatarUrl = avatarUrl_of (welcomeMessage_of s);
          welcomeMessage = message_of (welcomeMessage_of s)
      in Div
           ([Div ((if \<not> truthy_bool hideHeader then [Heading2 ''Welcome to Gitpod''] else []) @
                  (if has_setter then [Button ''Edit'' (truthy_bool disabled)] else [])),
             Subheading gitpodWelcomeSubheading] @
            (case welcomeMessage of
               None \<Rightarrow> []
             | Some m \<Rightarrow>
                 if m = [] then []
                 else [Div ((case avatarUrl of
                               None \<Rightarrow> []
                             | Some u \<Rightarrow> if u = [] then [] else [Img u]) @
                            [Markdown m])])))"

text \<open>Every element of a rendered tree, the tree itself first.\<close>

fun elements :: "node \<Rightarrow> node list" where
  "elements (Div ns) = Div ns # concat (map elements ns)"
| "elements (Heading2 t) = [Heading2 t]"
| "elements (Button t d) = [Button t d]"
| "elements (Subheading t) = [Subheading t]"
| "elements (Img u) = [Img u]"
| "elements (Markdown t) = [Markdown t]"

text \<open>The parts of the message block: the avatar image and the markdown body.\<close>

fun message_part :: "node \<Rightarrow> bool" where
  "message_part (Img u) = True"
| "message_part (Markdown t) = True"
| "message_part (Div ns) = False"
| "message_part (Heading2 t) = False"
| "message_part (Button t d) = False"
| "message_part (Subheading t) = False"


section \<open>OrganizationJoinModal\<close>

text \<open>
  The browser as the modal sees it: the answer of \<^verbatim>\<open>storageAvailable("localStorage")\<close>,
  a helper of \<^verbatim>\<open>utils\<close> that is not part of the sources at hand and is therefore a
  parameter, and the content of \<^verbatim>\<open>localStorage\<close>.
\<close>

record browser =
  storageAvailable :: bool
  localStorage :: "string \<rightharpoonup> string"

text \<open>The \<^verbatim>\<open>useMemo\<close> that reads the flag: \<^verbatim>\<open>undefined\<close> when storage is not
  available.\<close>

definition initialOrgOnboardingPending :: "browser \<Rightarrow> bool option" where
  "initialOrgOnboardingPending b =
     (if storageAvailable b
      then Some (localStorage b ''newUserOnboardingPending'' = Some ''true'')
      else None)"

text \<open>\<^verbatim>\<open>dismissOrgOnboardingPending\<close>: the browser afterwards and the new value of the
  state \<^verbatim>\<open>orgOnboardingPending\<close>.\<close>

definition dismissOrgOnboardingPending :: "browser \<Rightarrow> browser \<times> bool" where
  "dismissOrgOnboardingPending b =
     ((if storageAvailable b
       then b\<lparr>localStorage := (localStorage b)(''newUserOnboardingPending'' := None)\<rparr>
       else b),
      False)"

datatype join_render = RenderNull | RenderModal (visible: bool)

text \<open>
  Mounting the modal on the settings it is given: what it renders once its effect has
  run, the browser afterwards, and the state \<^verbatim>\<open>orgOnboardingPending\<close>. The state starts
  as \<^verbatim>\<open>initialOrgOnboardingPending ?? false\<close>; the effect dismisses when the welcome
  message is not enabled, and the component then returns \<^verbatim>\<open>null\<close>.
\<close>

definition OrganizationJoinModal ::
  "'o OrganizationSettings option \<Rightarrow> browser \<Rightarrow> join_render \<times> browser \<times> bool" where
  "OrganizationJoinModal orgSettings b =
     (let orgOnboardingPending = or_false (initialOrgOnboardingPending b)
      in if \<not> truthy_bool (enabled_of (welcomeMessage_of orgSettings))
         then (case dismissOrgOnboardingPending b of (b1, pending1) \<Rightarrow> (RenderNull, b1, pending1))
         else (RenderModal orgOnboardingPending, b, orgOnboardingPending))"


section \<open>Sample inputs\<close>

text \<open>Settings, hook values and browsers on which the theorems below are evaluated.
  The other settings carry strings here.\<close>

definition sample_welcome :: WelcomeMessage where
  "sample_welcome =
     \<lparr>enabled = Value True, message = Value ''Hi team!'', featuredMemberId = Value ''m1'',
      featuredMemberResolvedAvatarUrl = Value ''a1.png''\<rparr>"

definition sample_settings :: "string OrganizationSettings" where
  "sample_settings =
     \<lparr>onboardingSettings =
        Value \<lparr>internalLink = Value ''https://old.example'',
               welcomeMessage = Value sample_welcome,
               recommendedRepositories = Value [''repo1'']\<rparr>,
      otherSettings = [''defaultWorkspaceImage'' \<mapsto> ''ubuntu'']\<rparr>"

text \<open>The initial settings of the example of the specification: no link, an empty
  message, not enabled.\<close>

definition blank_settings :: "string OrganizationSettings" where
  "blank_settings =
     \<lparr>onboardingSettings =
        Value \<lparr>internalLink = Value [],
               welcomeMessage =
                 Value \<lparr>enabled = Value False, message = Value [], featuredMemberId = Value [],
                        featuredMemberResolvedAvatarUrl = Absent\<rparr>,
               recommendedRepositories = Value []\<rparr>,
      otherSettings = Map.empty\<rparr>"

text \<open>The sample settings after the welcome message has been switched off, and
  settings with an avatar but an empty message.\<close>

definition sample_settings_disabled :: "string OrganizationSettings" where
  "sample_settings_disabled =
     \<lparr>onboardingSettings =
        Value \<lparr>internalLink = Value ''https://old.example'',
               welcomeMessage =
                 Value \<lparr>enabled = Value False, message = Value ''Hi team!'',
                        featuredMemberId = Value ''m1'',
                        featuredMemberResolvedAvatarUrl = Value ''a1.png''\<rparr>,
               recommendedRepositories = Value [''repo1'']\<rparr>,
      otherSettings = [''defaultWorkspaceImage'' \<mapsto> ''ubuntu'']\<rparr>"

definition avatar_only_settings :: "string OrganizationSettings" where
  "avatar_only_settings =
     \<lparr>onboardingSettings =
        Value \<lparr>internalLink = Absent,
               welcomeMessage =
                 Value \<lparr>enabled = Value True, message = Value [], featuredMemberId = Value ''m1'',
                        featuredMemberResolvedAvatarUrl = Value ''a1.png''\<rparr>,
               recommendedRepositories = Value []\<rparr>,
      otherSettings = Map.empty\<rparr>"

text \<open>A partial update that carries another workspace image and an
  \<^verbatim>\<open>onboardingSettings\<close> key holding \<^verbatim>\<open>undefined\<close>.\<close>

definition sample_partial :: "string OrganizationSettings" where
  "sample_partial =
     \<lparr>onboardingSettings = Undefined,
      otherSettings = [''defaultWorkspaceImage'' \<mapsto> ''alpine'']\<rparr>"

definition owner_hooks :: "string OrganizationSettings \<Rightarrow> string hooks" where
  "owner_hooks s =
     \<lparr>org_id = Some ''org1'', isOwner = True, settings = Some s, mutateAsync = (\<lambda>m. Inr m)\<rparr>"

definition failing_hooks :: "string OrganizationSettings \<Rightarrow> string hooks" where
  "failing_hooks s =
     \<lparr>org_id = Some ''org1'', isOwner = True, settings = Some s,
      mutateAsync = (\<lambda>m. Inl (Error ''network down''))\<rparr>"

definition stranger_hooks :: "string hooks" where
  "stranger_hooks =
     \<lparr>org_id = None, isOwner = False, settings = None, mutateAsync = (\<lambda>m. Inr m)\<rparr>"

definition member_hooks :: "string hooks" where
  "member_hooks =
     \<lparr>org_id = Some ''org1'', isOwner = False, settings = Some sample_settings,
      mutateAsync = (\<lambda>m. Inr m)\<rparr>"

definition flagged_browser :: "bool \<Rightarrow> browser" where
  "flagged_browser available =
     \<lparr>storageAvailable = available,
      localStorage = [''newUserOnboardingPending'' \<mapsto> ''true'']\<rparr>"


section \<open>Facts about handleUpdateTeamSettings\<close>

lemma handleUpdateTeamSettings_no_org:
  "\<not> truthy_string (org_id h) \<Longrightarrow>
   handleUpdateTeamSettings h p opts = (Inl NoOrganizationError, [])"
  by (simp add: handleUpdateTeamSettings_def NoOrganizationError_def)

lemma handleUpdateTeamSettings_not_owner:
  "truthy_string (org_id h) \<Longrightarrow> \<not> isOwner h \<Longrightarrow>
   handleUpdateTeamSettings h p opts = (Inl PermissionError, [])"
  by (simp add: handleUpdateTeamSettings_def PermissionError_def)

lemma handleUpdateTeamSettings_writes:
  "truthy_string (org_id h) \<Longrightarrow> isOwner h \<Longrightarrow>
   writes (snd (handleUpdateTeamSettings h p opts)) =
     [spread_OrganizationSettings (spread_source_OrganizationSettings (settings h)) p]"
  by (simp add: handleUpdateTeamSettings_def Let_def split: sum.splits)


section \<open>The guards of update\<close>

text \<open>
  Claim C2, as the code has it. Whatever the partial update and the options:
  with no organization selected (the id is undefined or empty),
  \<^verbatim>\<open>handleUpdateTeamSettings\<close> rejects with the error "no organization selected" and
  has made no remote write call; called by a non-owner while an organization is
  selected, it rejects with the error "no organization settings change permission"
  and has made no remote write call either. The organization is checked first.
\<close>

theorem update_guards:
  "(\<not> truthy_string (org_id h) \<longrightarrow>
      handleUpdateTeamSettings h p opts = (Inl NoOrganizationError, []) \<and>
      writes (snd (handleUpdateTeamSettings h p opts)) = [])
   \<and> (truthy_string (org_id h) \<and> \<not> isOwner h \<longrightarrow>
      handleUpdateTeamSettings h p opts = (Inl PermissionError, []) \<and>
      writes (snd (handleUpdateTeamSettings h p opts)) = [])"
  by (simp add: handleUpdateTeamSettings_no_org handleUpdateTeamSettings_not_owner)

theorem update_guards_witness:
  "handleUpdateTeamSettings stranger_hooks empty_OrganizationSettings None =
     (Inl NoOrganizationError, [])
   \<and> handleUpdateTeamSettings member_hooks empty_OrganizationSettings None =
     (Inl PermissionError, [])"
  using update_guards [of stranger_hooks empty_OrganizationSettings None]
        update_guards [of member_hooks empty_OrganizationSettings None]
  by (simp add: stranger_hooks_def member_hooks_def truthy_string_def)

text \<open>
  Claim C2 as it is written asks a non-owner to get the permission error on every
  input. A non-owner with no organization selected gets the error of the first guard
  instead.
\<close>

theorem update_guards_counterexample:
  "\<not> isOwner stranger_hooks \<and>
   fst (handleUpdateTeamSettings stranger_hooks empty_OrganizationSettings None) \<noteq>
     Inl PermissionError \<and>
   handleUpdateTeamSettings stranger_hooks empty_OrganizationSettings None =
     (Inl NoOrganizationError, [])"
  by (simp add: handleUpdateTeamSettings_def stranger_hooks_def truthy_string_def
      PermissionError_def NoOrganizationError_def)


section \<open>A failing remote write\<close>

text \<open>
  Claim C7. Let the guards pass and let the remote write reject with \<open>err\<close>. Without
  \<^verbatim>\<open>throwMutateError\<close> the update resolves: after the write call it shows the toast
  "Failed to update organization settings: " followed by the message of the error, and
  logs the error. With \<^verbatim>\<open>throwMutateError\<close> it rejects with the same error, and the
  write call is its only event: no toast is shown.
\<close>

theorem update_failure:
  assumes "truthy_string (org_id h)" and "isOwner h"
    and "mutateAsync h
           (spread_OrganizationSettings (spread_source_OrganizationSettings (settings h)) p) =
         Inl err"
  shows "(\<not> throws opts \<longrightarrow>
            handleUpdateTeamSettings h p opts =
              (Inr (),
               [MutateAsync
                  (spread_OrganizationSettings (spread_source_OrganizationSettings (settings h)) p),
                Toast (''Failed to update organization settings: '' @ error_message err),
                ConsoleError err]))
       \<and> (throws opts \<longrightarrow>
            handleUpdateTeamSettings h p opts =
              (Inl err,
               [MutateAsync
                  (spread_OrganizationSettings (spread_source_OrganizationSettings (settings h)) p)]))"
  using assms by (simp add: handleUpdateTeamSettings_def Let_def)

theorem update_failure_witness:
  "handleUpdateTeamSettings (failing_hooks sample_settings) empty_OrganizationSettings None =
     (Inr (),
      [MutateAsync sample_settings,
       Toast ''Failed to update organization settings: network down'',
       ConsoleError (Error ''network down'')])
   \<and> handleUpdateTeamSettings (failing_hooks sample_settings) empty_OrganizationSettings
       (Some \<lparr>throwMutateError = Some True\<rparr>) =
     (Inl (Error ''network down''), [MutateAsync sample_settings])"
  using update_failure [of "failing_hooks sample_settings" empty_OrganizationSettings
          "Error ''network down''" None]
        update_failure [of "failing_hooks sample_settings" empty_OrganizationSettings
          "Error ''network down''" "Some \<lparr>throwMutateError = Some True\<rparr>"]
  by (simp add: failing_hooks_def truthy_string_def throws_def truthy_bool_def
      spread_OrganizationSettings_def spread_source_OrganizationSettings_def
      empty_OrganizationSettings_def spread_prop_def)


section \<open>Facts about the payloads\<close>

lemma get_prop_entry: "get_prop (entry v) = v"
  by (simp add: get_prop_def entry_def split: option.splits)

lemma spread_enabled_only:
  "spread_WelcomeMessage w (enabled_only c) = w\<lparr>enabled := Value c\<rparr>"
  by (simp add: spread_WelcomeMessage_def enabled_only_def spread_prop_def)

lemma reads_of_spread_source:
  "message_of (Some (spread_source_WelcomeMessage w)) = message_of w"
  "featuredMemberId_of (Some (spread_source_WelcomeMessage w)) = featuredMemberId_of w"
  "avatarUrl_of (Some (spread_source_WelcomeMessage w)) = avatarUrl_of w"
  "enabled_of (Some (spread_source_WelcomeMessage w)) = enabled_of w"
  by (simp_all add: message_of_def featuredMemberId_of_def avatarUrl_of_def enabled_of_def
      spread_source_WelcomeMessage_def empty_WelcomeMessage_def get_prop_def
      split: option.splits)

lemma handleUpdateWelcomeMessage_writes:
  "truthy_string (org_id h) \<Longrightarrow> isOwner h \<Longrightarrow>
   map (\<lambda>m. welcomeMessage_of (Some m)) (writes (snd (handleUpdateWelcomeMessage h n))) =
     [Some (spread_WelcomeMessage
              (spread_source_WelcomeMessage (welcomeMessage_of (settings h))) n)]"
  by (simp add: handleUpdateWelcomeMessage_def handleUpdateTeamSettings_writes
      spread_OrganizationSettings_def spread_prop_def welcomeMessage_of_def onboarding_of_def
      get_prop_def)

lemma onCheckedChange_inline_writes:
  "\<not> (checked \<and> \<not> truthy_string (message_of (welcomeMessage_of (settings h)))) \<Longrightarrow>
   map (\<lambda>m. welcomeMessage_of (Some m)) (writes (onCheckedChange_inline h checked)) =
     [Some \<lparr>enabled = Value checked,
            message = entry (message_of (welcomeMessage_of (settings h))),
            featuredMemberId = entry (featuredMemberId_of (welcomeMessage_of (settings h))),
            featuredMemberResolvedAvatarUrl = Absent\<rparr>]"
  by (auto simp: onCheckedChange_inline_def welcomeMessage_of_def onboarding_of_def get_prop_def)


section \<open>The merge of update\<close>

text \<open>
  Claim C1, as the code has it. When the guards pass, \<^verbatim>\<open>handleUpdateTeamSettings\<close>
  makes one remote write, of the partial update spread over the last-known snapshot.
  The merge is shallow. Every top-level field that the partial omits keeps the value of
  the snapshot. Every top-level field that the partial carries has, in the object
  written, the value of the partial and nothing of the snapshot's value: this holds
  for each of the other settings, and for \<^verbatim>\<open>onboardingSettings\<close> also when the partial
  carries it as \<^verbatim>\<open>undefined\<close>. So the internal-link form, which submits
  \<^verbatim>\<open>{onboardingSettings: {internalLink: v}}\<close>, writes an object whose
  \<^verbatim>\<open>onboardingSettings\<close> is exactly \<^verbatim>\<open>{internalLink: v}\<close>, with neither the welcome message
  nor the recommended repositories of the snapshot, and whose other top-level fields are
  those of the snapshot.
\<close>

theorem update_shallow_merge:
  assumes "truthy_string (org_id h)" and "isOwner h"
  shows "writes (snd (handleUpdateTeamSettings h p opts)) =
           [spread_OrganizationSettings (spread_source_OrganizationSettings (settings h)) p]
       \<and> (\<forall>k. otherSettings p k = None \<longrightarrow>
             map (\<lambda>m. otherSettings m k) (writes (snd (handleUpdateTeamSettings h p opts))) =
             [otherSettings (spread_source_OrganizationSettings (settings h)) k])
       \<and> (\<forall>k v. otherSettings p k = Some v \<longrightarrow>
             map (\<lambda>m. otherSettings m k) (writes (snd (handleUpdateTeamSettings h p opts))) =
             [Some v])
       \<and> (onboardingSettings p = Absent \<longrightarrow>
             map onboardingSettings (writes (snd (handleUpdateTeamSettings h p opts))) =
             [onboardingSettings (spread_source_OrganizationSettings (settings h))])
       \<and> (onboardingSettings p \<noteq> Absent \<longrightarrow>
             map onboardingSettings (writes (snd (handleUpdateTeamSettings h p opts))) =
             [onboardingSettings p])
       \<and> writes (snd (handleUpdateInternalLink h v)) =
           [\<lparr>onboardingSettings =
               Value \<lparr>internalLink = entry v, welcomeMessage = Absent,
                      recommendedRepositories = Absent\<rparr>,
             otherSettings = otherSettings (spread_source_OrganizationSettings (settings h))\<rparr>]"
proof -
  let ?snapshot = "spread_source_OrganizationSettings (settings h)"
  have written:
    "writes (snd (handleUpdateTeamSettings h p opts)) = [spread_OrganizationSettings ?snapshot p]"
    using assms by (rule handleUpdateTeamSettings_writes)
  have omitted: "otherSettings p k = None \<Longrightarrow>
      otherSettings (spread_OrganizationSettings ?snapshot p) k = otherSettings ?snapshot k" for k
    by (simp add: spread_OrganizationSettings_def map_add_def)
  have carried: "otherSettings p k = Some x \<Longrightarrow>
      otherSettings (spread_OrganizationSettings ?snapshot p) k = Some x" for k x
    by (simp add: spread_OrganizationSettings_def map_add_def)
  have onboarding_omitted: "onboardingSettings p = Absent \<Longrightarrow>
      onboardingSettings (spread_OrganizationSettings ?snapshot p) = onboardingSettings ?snapshot"
    by (simp add: spread_OrganizationSettings_def spread_prop_def)
  have onboarding_carried: "onboardingSettings p \<noteq> Absent \<Longrightarrow>
      onboardingSettings (spread_OrganizationSettings ?snapshot p) = onboardingSettings p"
    by (cases "onboardingSettings p") (simp_all add: spread_OrganizationSettings_def spread_prop_def)
  have link:
    "writes (snd (handleUpdateInternalLink h v)) =
       [\<lparr>onboardingSettings =
           Value \<lparr>internalLink = entry v, welcomeMessage = Absent,
                  recommendedRepositories = Absent\<rparr>,
         otherSettings = otherSettings ?snapshot\<rparr>]"
    using assms
    by (simp add: handleUpdateTeamSettings_writes handleUpdateInternalLink_def
        spread_OrganizationSettings_def spread_prop_def)
  show ?thesis
    using written omitted carried onboarding_omitted onboarding_carried link by simp
qed

theorem update_shallow_merge_witness:
  "writes (snd (handleUpdateInternalLink (owner_hooks sample_settings)
                  (Some ''https://new.example''))) =
     [\<lparr>onboardingSettings =
         Value \<lparr>internalLink = Value ''https://new.example'', welcomeMessage = Absent,
                recommendedRepositories = Absent\<rparr>,
       otherSettings = [''defaultWorkspaceImage'' \<mapsto> ''ubuntu'']\<rparr>]
   \<and> map (\<lambda>m. otherSettings m ''defaultWorkspaceImage'')
       (writes (snd (handleUpdateTeamSettings (owner_hooks sample_settings) sample_partial None))) =
     [Some ''alpine'']
   \<and> map onboardingSettings
       (writes (snd (handleUpdateTeamSettings (owner_hooks sample_settings) sample_partial None))) =
     [Undefined]"
proof -
  let ?h = "owner_hooks sample_settings"
  have guards: "truthy_string (org_id ?h)" "isOwner ?h"
    by (simp_all add: owner_hooks_def truthy_string_def)
  have carried: "otherSettings sample_partial ''defaultWorkspaceImage'' = Some ''alpine''"
    "onboardingSettings sample_partial \<noteq> Absent"
    "onboardingSettings sample_partial = Undefined"
    by (simp_all add: sample_partial_def)
  have snapshot:
    "otherSettings (spread_source_OrganizationSettings (settings ?h)) =
       [''defaultWorkspaceImage'' \<mapsto> ''ubuntu'']"
    by (simp add: owner_hooks_def sample_settings_def spread_source_OrganizationSettings_def)
  note known = update_shallow_merge [OF guards, of sample_partial None "Some ''https://new.example''"]
  from known carried(1)
  have image: "map (\<lambda>m. otherSettings m ''defaultWorkspaceImage'')
       (writes (snd (handleUpdateTeamSettings ?h sample_partial None))) = [Some ''alpine'']"
    by blast
  from known carried(2)
  have onboarding: "map onboardingSettings
       (writes (snd (handleUpdateTeamSettings ?h sample_partial None))) =
       [onboardingSettings sample_partial]"
    by blast
  from known
  have link: "writes (snd (handleUpdateInternalLink ?h (Some ''https://new.example''))) =
       [\<lparr>onboardingSettings =
           Value \<lparr>internalLink = entry (Some ''https://new.example''), welcomeMessage = Absent,
                  recommendedRepositories = Absent\<rparr>,
         otherSettings = otherSettings (spread_source_OrganizationSettings (settings ?h))\<rparr>]"
    by blast
  show ?thesis
    using image onboarding link by (simp add: carried(3) snapshot entry_def)
qed

text \<open>
  Claim C1 as it is written has the fields of \<^verbatim>\<open>onboardingSettings\<close> other than the
  link keep their snapshot values in the merged object. On a snapshot with a welcome
  message and a recommended repository, the object written by the internal-link form
  has neither.
\<close>

theorem update_shallow_merge_counterexample:
  "welcomeMessage_of (settings (owner_hooks sample_settings)) = Some sample_welcome
   \<and> recommendedRepositories_of (settings (owner_hooks sample_settings)) = Some [''repo1'']
   \<and> map (\<lambda>m. welcomeMessage_of (Some m))
        (writes (snd (handleUpdateInternalLink (owner_hooks sample_settings)
                        (Some ''https://new.example'')))) =
      [None]
   \<and> map (\<lambda>m. recommendedRepositories_of (Some m))
        (writes (snd (handleUpdateInternalLink (owner_hooks sample_settings)
                        (Some ''https://new.example'')))) =
      [None]"
  by (simp add: handleUpdateInternalLink_def handleUpdateTeamSettings_def owner_hooks_def
      sample_settings_def truthy_string_def spread_OrganizationSettings_def
      spread_source_OrganizationSettings_def spread_prop_def entry_def welcomeMessage_of_def
      recommendedRepositories_of_def onboarding_of_def get_prop_def)


section \<open>The switch\<close>

text \<open>
  Claim C3. When the message of the settings is empty or undefined, switching on
  shows the toast "Please set up a welcome message first." and nothing else: there is
  no remote write, and the remote store is as before, however it applies writes. This
  holds for the switch of the field and for the earlier inline switch. Switching off
  never shows that toast: the switch of the field goes on to
  \<^verbatim>\<open>handleUpdateWelcomeMessage({enabled: false})\<close>, and the inline switch makes its
  write.
\<close>

theorem toggle_blocked:
  "(\<not> truthy_string (message_of (welcomeMessage_of (settings h))) \<longrightarrow>
      onCheckedChange h True = [Toast setup_notice]
      \<and> writes (onCheckedChange h True) = []
      \<and> remote_after store (onCheckedChange h True) r = r
      \<and> onCheckedChange_inline h True = [Toast setup_notice]
      \<and> writes (onCheckedChange_inline h True) = []
      \<and> remote_after store (onCheckedChange_inline h True) r = r)
   \<and> onCheckedChange h False = snd (handleUpdateWelcomeMessage h (enabled_only False))
   \<and> Toast setup_notice \<notin> set (onCheckedChange h False)
   \<and> writes (onCheckedChange_inline h False) \<noteq> []
   \<and> Toast setup_notice \<notin> set (onCheckedChange_inline h False)"
  by (simp add: onCheckedChange_def onCheckedChange_inline_def setup_notice_def
      handleUpdateWelcomeMessage_def handleUpdateTeamSettings_def Let_def split: sum.splits)

theorem toggle_blocked_witness:
  "onCheckedChange (owner_hooks blank_settings) True = [Toast setup_notice]
   \<and> writes (onCheckedChange (owner_hooks blank_settings) True) = []
   \<and> onCheckedChange_inline (owner_hooks blank_settings) True = [Toast setup_notice]
   \<and> Toast setup_notice \<notin> set (onCheckedChange (owner_hooks blank_settings) False)"
proof -
  have empty_message:
    "\<not> truthy_string (message_of (welcomeMessage_of (settings (owner_hooks blank_settings))))"
    by (simp add: owner_hooks_def blank_settings_def truthy_string_def message_of_def
        welcomeMessage_of_def onboarding_of_def get_prop_def)
  from toggle_blocked [of "owner_hooks blank_settings" "\<lambda>m r. m" blank_settings] empty_message
  show ?thesis by blast
qed

text \<open>
  Claim C8. A toggle that is not stopped by the empty-message check calls
  \<^verbatim>\<open>handleUpdateTeamSettings\<close> in the same handler call, with the welcome message of the
  snapshot in which only \<open>enabled\<close> is replaced by the new position of the switch. For
  an owner with an organization selected (the switch is disabled for anyone else) this
  makes exactly one remote write; in the object written, \<open>enabled\<close> is the new
  position, and the message and the featured member read as they do in the snapshot.
  The earlier inline switch writes the three fields directly, with the same readings.
  The payload is computed from the snapshot and the position of the switch alone:
  neither the draft of the editor nor the internal-link input enters it.
\<close>

theorem toggle_submits:
  assumes "\<not> (checked \<and> \<not> truthy_string (message_of (welcomeMessage_of (settings h))))"
  shows "onCheckedChange h checked =
           snd (handleUpdateTeamSettings h
                  \<lparr>onboardingSettings =
                     Value \<lparr>internalLink = Absent,
                            welcomeMessage =
                              Value ((spread_source_WelcomeMessage (welcomeMessage_of (settings h)))
                                       \<lparr>enabled := Value checked\<rparr>),
                            recommendedRepositories =
                              Value (case recommendedRepositories_of (settings h) of
                                       None \<Rightarrow> [] | Some rs \<Rightarrow> rs)\<rparr>,
                   otherSettings = Map.empty\<rparr>
                  None)
       \<and> (truthy_string (org_id h) \<and> isOwner h \<longrightarrow>
            map (\<lambda>m. welcomeMessage_of (Some m)) (writes (onCheckedChange h checked)) =
              [Some ((spread_source_WelcomeMessage (welcomeMessage_of (settings h)))
                       \<lparr>enabled := Value checked\<rparr>)]
          \<and> map (\<lambda>m. enabled_of (welcomeMessage_of (Some m)))
                (writes (onCheckedChange h checked)) =
              [Some checked]
          \<and> map (\<lambda>m. message_of (welcomeMessage_of (Some m)))
                (writes (onCheckedChange h checked)) =
              [message_of (welcomeMessage_of (settings h))]
          \<and> map (\<lambda>m. featuredMemberId_of (welcomeMessage_of (Some m)))
                (writes (onCheckedChange h checked)) =
              [featuredMemberId_of (welcomeMessage_of (settings h))])
       \<and> map (\<lambda>m. enabled_of (welcomeMessage_of (Some m)))
             (writes (onCheckedChange_inline h checked)) =
           [Some checked]
       \<and> map (\<lambda>m. message_of (welcomeMessage_of (Some m)))
             (writes (onCheckedChange_inline h checked)) =
           [message_of (welcomeMessage_of (settings h))]
       \<and> map (\<lambda>m. featuredMemberId_of (welcomeMessage_of (Some m)))
             (writes (onCheckedChange_inline h checked)) =
           [featuredMemberId_of (welcomeMessage_of (settings h))]"
proof -
  let ?remote = "welcomeMessage_of (settings h)"
  let ?sent = "(spread_source_WelcomeMessage ?remote)\<lparr>enabled := Value checked\<rparr>"
  have sent_reads:
    "enabled_of (Some ?sent) = Some checked"
    "message_of (Some ?sent) = message_of ?remote"
    "featuredMemberId_of (Some ?sent) = featuredMemberId_of ?remote"
    using reads_of_spread_source(1,2) [of ?remote]
    by (simp_all add: enabled_of_def message_of_def featuredMemberId_of_def get_prop_def)
  have field:
    "truthy_string (org_id h) \<and> isOwner h \<longrightarrow>
       map (\<lambda>m. welcomeMessage_of (Some m)) (writes (onCheckedChange h checked)) = [Some ?sent]
       \<and> map (\<lambda>m. enabled_of (welcomeMessage_of (Some m))) (writes (onCheckedChange h checked)) =
           [Some checked]
       \<and> map (\<lambda>m. message_of (welcomeMessage_of (Some m))) (writes (onCheckedChange h checked)) =
           [message_of ?remote]
       \<and> map (\<lambda>m. featuredMemberId_of (welcomeMessage_of (Some m)))
             (writes (onCheckedChange h checked)) =
           [featuredMemberId_of ?remote]"
  proof
    assume guards: "truthy_string (org_id h) \<and> isOwner h"
    have payload:
      "map (\<lambda>m. welcomeMessage_of (Some m)) (writes (onCheckedChange h checked)) = [Some ?sent]"
      using assms guards
      by (auto simp: onCheckedChange_def handleUpdateWelcomeMessage_writes spread_enabled_only)
    have e: "map (\<lambda>m. enabled_of (welcomeMessage_of (Some m)))
               (writes (onCheckedChange h checked)) = [Some checked]"
      using arg_cong [OF payload, of "map enabled_of"] sent_reads(1) by (simp add: o_def)
    have m: "map (\<lambda>m. message_of (welcomeMessage_of (Some m)))
               (writes (onCheckedChange h checked)) = [message_of ?remote]"
      using arg_cong [OF payload, of "map message_of"] sent_reads(2) by (simp add: o_def)
    have f: "map (\<lambda>m. featuredMemberId_of (welcomeMessage_of (Some m)))
               (writes (onCheckedChange h checked)) = [featuredMemberId_of ?remote]"
      using arg_cong [OF payload, of "map featuredMemberId_of"] sent_reads(3)
      by (simp add: o_def)
    from payload e m f
    show "map (\<lambda>m. welcomeMessage_of (Some m)) (writes (onCheckedChange h checked)) = [Some ?sent]
       \<and> map (\<lambda>m. enabled_of (welcomeMessage_of (Some m))) (writes (onCheckedChange h checked)) =
           [Some checked]
       \<and> map (\<lambda>m. message_of (welcomeMessage_of (Some m))) (writes (onCheckedChange h checked)) =
           [message_of ?remote]
       \<and> map (\<lambda>m. featuredMemberId_of (welcomeMessage_of (Some m)))
             (writes (onCheckedChange h checked)) =
           [featuredMemberId_of ?remote]"
      by blast
  qed
  note inline = onCheckedChange_inline_writes [OF assms]
  have inline_enabled:
    "map (\<lambda>m. enabled_of (welcomeMessage_of (Some m)))
       (writes (onCheckedChange_inline h checked)) = [Some checked]"
    using arg_cong [OF inline, of "map enabled_of"]
    by (simp add: o_def enabled_of_def get_prop_def)
  have inline_message:
    "map (\<lambda>m. message_of (welcomeMessage_of (Some m)))
       (writes (onCheckedChange_inline h checked)) = [message_of ?remote]"
    using arg_cong [OF inline, of "map message_of"]
    by (simp add: o_def message_of_def [of "Some _"] get_prop_entry)
  have inline_member:
    "map (\<lambda>m. featuredMemberId_of (welcomeMessage_of (Some m)))
       (writes (onCheckedChange_inline h checked)) = [featuredMemberId_of ?remote]"
    using arg_cong [OF inline, of "map featuredMemberId_of"]
    by (simp add: o_def featuredMemberId_of_def [of "Some _"] get_prop_entry)
  have call:
    "onCheckedChange h checked =
       snd (handleUpdateTeamSettings h
              \<lparr>onboardingSettings =
                 Value \<lparr>internalLink = Absent,
                        welcomeMessage = Value ?sent,
                        recommendedRepositories =
                          Value (case recommendedRepositories_of (settings h) of
                                   None \<Rightarrow> [] | Some rs \<Rightarrow> rs)\<rparr>,
               otherSettings = Map.empty\<rparr>
              None)"
    using assms
    by (auto simp: onCheckedChange_def handleUpdateWelcomeMessage_def spread_enabled_only)
  from call field inline_enabled inline_message inline_member
  show ?thesis by blast
qed

theorem toggle_submits_witness:
  "map (\<lambda>m. welcomeMessage_of (Some m))
     (writes (onCheckedChange (owner_hooks sample_settings_disabled) True)) =
     [Some sample_welcome]
   \<and> map (\<lambda>m. message_of (welcomeMessage_of (Some m)))
       (writes (onCheckedChange_inline (owner_hooks sample_settings_disabled) True)) =
     [Some ''Hi team!'']"
proof -
  let ?h = "owner_hooks sample_settings_disabled"
  have remote:
    "welcomeMessage_of (settings ?h) =
       Some \<lparr>enabled = Value False, message = Value ''Hi team!'', featuredMemberId = Value ''m1'',
              featuredMemberResolvedAvatarUrl = Value ''a1.png''\<rparr>"
    by (simp add: owner_hooks_def sample_settings_disabled_def welcomeMessage_of_def
        onboarding_of_def get_prop_def)
  have passes: "\<not> (True \<and> \<not> truthy_string (message_of (welcomeMessage_of (settings ?h))))"
    by (simp add: remote message_of_def get_prop_def truthy_string_def)
  have guards: "truthy_string (org_id ?h) \<and> isOwner ?h"
    by (simp add: owner_hooks_def truthy_string_def)
  from toggle_submits [OF passes] guards
  have "map (\<lambda>m. welcomeMessage_of (Some m)) (writes (onCheckedChange ?h True)) =
          [Some ((spread_source_WelcomeMessage (welcomeMessage_of (settings ?h)))
                   \<lparr>enabled := Value True\<rparr>)]
        \<and> map (\<lambda>m. message_of (welcomeMessage_of (Some m)))
            (writes (onCheckedChange_inline ?h True)) =
          [message_of (welcomeMessage_of (settings ?h))]"
    by blast
  then show ?thesis
    by (simp add: remote spread_source_WelcomeMessage_def sample_welcome_def message_of_def
        get_prop_def)
qed


section \<open>Saving the editor\<close>

text \<open>
  Claim C5. Saving the editor calls \<^verbatim>\<open>handleUpdateTeamSettings\<close> with a welcome
  message whose \<open>enabled\<close> is the value read from the settings snapshot
  (\<^verbatim>\<open>settings?.enabled ?? false\<close>), whatever the draft; its message and featured member
  are those of the draft, and the resolved avatar URL is carried over from the snapshot.
  Submitting the form is this handler. For an owner with an organization selected the
  call makes one remote write, and \<open>enabled\<close>, read with the same default, is the same
  in the write as in the snapshot.
\<close>

theorem save_keeps_enabled:
  "updateWelcomeMessage h st =
     handleUpdateTeamSettings h
       \<lparr>onboardingSettings =
          Value \<lparr>internalLink = Absent,
                 welcomeMessage =
                   Value \<lparr>enabled = Value (or_false (enabled_of (welcomeMessage_of (settings h)))),
                          message = entry (draft_message st),
                          featuredMemberId = entry (draft_featuredMemberId st),
                          featuredMemberResolvedAvatarUrl =
                            featuredMemberResolvedAvatarUrl
                              (spread_source_WelcomeMessage (welcomeMessage_of (settings h)))\<rparr>,
                 recommendedRepositories =
                   Value (case recommendedRepositories_of (settings h) of
                            None \<Rightarrow> [] | Some rs \<Rightarrow> rs)\<rparr>,
        otherSettings = Map.empty\<rparr>
       None
   \<and> snd (editor_step h st SubmitForm) = snd (updateWelcomeMessage h st)
   \<and> (truthy_string (org_id h) \<and> isOwner h \<longrightarrow>
        map (\<lambda>m. welcomeMessage_of (Some m)) (writes (snd (updateWelcomeMessage h st))) =
          [Some \<lparr>enabled = Value (or_false (enabled_of (welcomeMessage_of (settings h)))),
                 message = entry (draft_message st),
                 featuredMemberId = entry (draft_featuredMemberId st),
                 featuredMemberResolvedAvatarUrl =
                   featuredMemberResolvedAvatarUrl
                     (spread_source_WelcomeMessage (welcomeMessage_of (settings h)))\<rparr>]
        \<and> map (\<lambda>m. or_false (enabled_of (welcomeMessage_of (Some m))))
              (writes (snd (updateWelcomeMessage h st))) =
            [or_false (enabled_of (welcomeMessage_of (settings h)))]
        \<and> map (\<lambda>m. avatarUrl_of (welcomeMessage_of (Some m)))
              (writes (snd (updateWelcomeMessage h st))) =
            [avatarUrl_of (welcomeMessage_of (settings h))])"
proof -
  let ?sent =
    "\<lparr>enabled = Value (or_false (enabled_of (welcomeMessage_of (settings h)))),
      message = entry (draft_message st),
      featuredMemberId = entry (draft_featuredMemberId st),
      featuredMemberResolvedAvatarUrl =
        featuredMemberResolvedAvatarUrl
          (spread_source_WelcomeMessage (welcomeMessage_of (settings h)))\<rparr>"
  have overlay:
    "spread_WelcomeMessage (spread_source_WelcomeMessage (welcomeMessage_of (settings h)))
       \<lparr>enabled = Value (or_false (enabled_of (welcomeMessage_of (settings h)))),
        message = entry (draft_message st),
        featuredMemberId = entry (draft_featuredMemberId st),
        featuredMemberResolvedAvatarUrl = Absent\<rparr> = ?sent"
    by (simp add: spread_WelcomeMessage_def spread_prop_def entry_def split: option.splits)
  have call:
    "updateWelcomeMessage h st =
       handleUpdateTeamSettings h
         \<lparr>onboardingSettings =
            Value \<lparr>internalLink = Absent, welcomeMessage = Value ?sent,
                   recommendedRepositories =
                     Value (case recommendedRepositories_of (settings h) of
                              None \<Rightarrow> [] | Some rs \<Rightarrow> rs)\<rparr>,
          otherSettings = Map.empty\<rparr>
         None"
    by (simp add: updateWelcomeMessage_def handleUpdateWelcomeMessage_def overlay)
  have submit: "snd (editor_step h st SubmitForm) = snd (updateWelcomeMessage h st)"
    by simp
  have guarded:
    "truthy_string (org_id h) \<and> isOwner h \<longrightarrow>
       map (\<lambda>m. welcomeMessage_of (Some m)) (writes (snd (updateWelcomeMessage h st))) =
         [Some ?sent]
       \<and> map (\<lambda>m. or_false (enabled_of (welcomeMessage_of (Some m))))
             (writes (snd (updateWelcomeMessage h st))) =
           [or_false (enabled_of (welcomeMessage_of (settings h)))]
       \<and> map (\<lambda>m. avatarUrl_of (welcomeMessage_of (Some m)))
             (writes (snd (updateWelcomeMessage h st))) =
           [avatarUrl_of (welcomeMessage_of (settings h))]"
  proof
    assume guards: "truthy_string (org_id h) \<and> isOwner h"
    have payload:
      "map (\<lambda>m. welcomeMessage_of (Some m)) (writes (snd (updateWelcomeMessage h st))) =
         [Some ?sent]"
      using guards
      by (simp add: updateWelcomeMessage_def handleUpdateWelcomeMessage_writes overlay)
    have enabled_same:
      "map (\<lambda>m. or_false (enabled_of (welcomeMessage_of (Some m))))
         (writes (snd (updateWelcomeMessage h st))) =
       [or_false (enabled_of (welcomeMessage_of (settings h)))]"
      using arg_cong [OF payload, of "map (\<lambda>x. or_false (enabled_of x))"]
      by (simp add: o_def enabled_of_def get_prop_def or_false_def)
    have avatar_same:
      "map (\<lambda>m. avatarUrl_of (welcomeMessage_of (Some m)))
         (writes (snd (updateWelcomeMessage h st))) =
       [avatarUrl_of (welcomeMessage_of (settings h))]"
      using arg_cong [OF payload, of "map avatarUrl_of"]
      by (simp add: o_def avatarUrl_of_def spread_source_WelcomeMessage_def
          empty_WelcomeMessage_def get_prop_def split: option.splits)
    from payload enabled_same avatar_same
    show "map (\<lambda>m. welcomeMessage_of (Some m)) (writes (snd (updateWelcomeMessage h st))) =
         [Some ?sent]
       \<and> map (\<lambda>m. or_false (enabled_of (welcomeMessage_of (Some m))))
             (writes (snd (updateWelcomeMessage h st))) =
           [or_false (enabled_of (welcomeMessage_of (settings h)))]
       \<and> map (\<lambda>m. avatarUrl_of (welcomeMessage_of (Some m)))
             (writes (snd (updateWelcomeMessage h st))) =
           [avatarUrl_of (welcomeMessage_of (settings h))]"
      by blast
  qed
  from call submit guarded show ?thesis by blast
qed

theorem save_keeps_enabled_witness:
  "map (\<lambda>m. welcomeMessage_of (Some m))
     (writes (snd (updateWelcomeMessage (owner_hooks sample_settings_disabled)
                     \<lparr>isOpen = True, draft_message = Some ''Welcome!'',
                      draft_featuredMemberId = None\<rparr>))) =
     [Some \<lparr>enabled = Value False, message = Value ''Welcome!'', featuredMemberId = Undefined,
            featuredMemberResolvedAvatarUrl = Value ''a1.png''\<rparr>]"
proof -
  let ?h = "owner_hooks sample_settings_disabled"
  let ?st = "\<lparr>isOpen = True, draft_message = Some ''Welcome!'', draft_featuredMemberId = None\<rparr>"
  have guards: "truthy_string (org_id ?h) \<and> isOwner ?h"
    by (simp add: owner_hooks_def truthy_string_def)
  from save_keeps_enabled [of ?h ?st] guards
  have "map (\<lambda>m. welcomeMessage_of (Some m)) (writes (snd (updateWelcomeMessage ?h ?st))) =
          [Some \<lparr>enabled = Value (or_false (enabled_of (welcomeMessage_of (settings ?h)))),
                 message = entry (draft_message ?st),
                 featuredMemberId = entry (draft_featuredMemberId ?st),
                 featuredMemberResolvedAvatarUrl =
                   featuredMemberResolvedAvatarUrl
                     (spread_source_WelcomeMessage (welcomeMessage_of (settings ?h)))\<rparr>]"
    by blast
  then show ?thesis
    by (simp add: owner_hooks_def sample_settings_disabled_def entry_def or_false_def
        enabled_of_def welcomeMessage_of_def onboarding_of_def get_prop_def
        spread_source_WelcomeMessage_def)
qed


section \<open>Closing the editor\<close>

text \<open>
  Claim C4, as the code has it. The draft is copied from the settings once, at the
  first render of the editor component. Let the user change the message and the
  featured member, close the editor (Cancel button or the modal's close) and open it
  again, under any hook values. No event happens, so there is no remote write and the
  remote store is as before. Closing only hides the modal: the draft of the next open
  is the changed draft, whatever the settings are. From any state of the editor,
  closing and opening again changes nothing but the visibility.
\<close>

theorem editor_cancel:
  assumes "close = ClickCancel \<or> close = ModalClose"
  shows "editor_mount w =
           \<lparr>isOpen = False, draft_message = message_of w,
            draft_featuredMemberId = featuredMemberId_of w\<rparr>
       \<and> editor_run st
           [(h1, ChangeMessage m), (h2, SetFeaturedMemberId f), (h3, close), (h4, ClickEdit)] =
           (\<lparr>isOpen = True, draft_message = Some m, draft_featuredMemberId = f\<rparr>, [])
       \<and> editor_run st [(h3, close), (h4, ClickEdit)] = (st\<lparr>isOpen := True\<rparr>, [])
       \<and> writes (snd (editor_run st
           [(h1, ChangeMessage m), (h2, SetFeaturedMemberId f), (h3, close), (h4, ClickEdit)])) = []
       \<and> remote_after store (snd (editor_run st
           [(h1, ChangeMessage m), (h2, SetFeaturedMemberId f), (h3, close), (h4, ClickEdit)])) r = r"
  using assms by (auto simp: editor_mount_def)

theorem editor_cancel_witness:
  "editor_run (editor_mount (Some sample_welcome))
     [(owner_hooks sample_settings, ChangeMessage ''Bye''),
      (owner_hooks sample_settings, SetFeaturedMemberId None),
      (owner_hooks sample_settings, ClickCancel),
      (owner_hooks sample_settings, ClickEdit)] =
     (\<lparr>isOpen = True, draft_message = Some ''Bye'', draft_featuredMemberId = None\<rparr>, [])"
  using editor_cancel [of ClickCancel "Some sample_welcome" "editor_mount (Some sample_welcome)"
          "owner_hooks sample_settings" "''Bye''" "owner_hooks sample_settings" None
          "owner_hooks sample_settings" "owner_hooks sample_settings" "\<lambda>m r. m" sample_settings]
  by simp

text \<open>
  Claim C4 as it is written has the next open show the remote message and featured
  member again. Mount the editor on the sample settings, open it, type a new message,
  choose no featured member, cancel and open again: the draft is still the typed one,
  while the settings have not changed.
\<close>

theorem editor_cancel_counterexample:
  "draft_message
     (fst (editor_run (editor_mount (welcomeMessage_of (settings (owner_hooks sample_settings))))
        [(owner_hooks sample_settings, ClickEdit),
         (owner_hooks sample_settings, ChangeMessage ''Bye''),
         (owner_hooks sample_settings, SetFeaturedMemberId None),
         (owner_hooks sample_settings, ClickCancel),
         (owner_hooks sample_settings, ClickEdit)])) = Some ''Bye''
   \<and> message_of (welcomeMessage_of (settings (owner_hooks sample_settings))) = Some ''Hi team!''
   \<and> draft_featuredMemberId
     (fst (editor_run (editor_mount (welcomeMessage_of (settings (owner_hooks sample_settings))))
        [(owner_hooks sample_settings, ClickEdit),
         (owner_hooks sample_settings, ChangeMessage ''Bye''),
         (owner_hooks sample_settings, SetFeaturedMemberId None),
         (owner_hooks sample_settings, ClickCancel),
         (owner_hooks sample_settings, ClickEdit)])) = None
   \<and> featuredMemberId_of (welcomeMessage_of (settings (owner_hooks sample_settings))) = Some ''m1''"
  by (simp add: editor_mount_def owner_hooks_def sample_settings_def sample_welcome_def
      message_of_def featuredMemberId_of_def welcomeMessage_of_def onboarding_of_def get_prop_def)


section \<open>The internal-link input and refetches\<close>

text \<open>
  Claim C6, as the code has it. After the first render the input holds the link of the
  settings, if there are settings. At a later render, the effect runs when the settings
  object is not the object of the previous render: if the new settings are defined, the
  input is overwritten with their link, whatever the user has typed and whatever the
  new object contains; if they are undefined, the input is kept. A render with the same
  settings object as before changes nothing. Typing sets the input and leaves the
  dependency alone.
\<close>

theorem link_resync:
  "link_input (link_mount s) = internalLink_of (map_option snd s)
   \<and> (Some a \<noteq> link_deps st \<longrightarrow>
        link_input (link_render (Some (a, x)) st) = internalLink_of (Some x))
   \<and> link_input (link_render None st) = link_input st
   \<and> (map_option fst s = link_deps st \<longrightarrow> link_render s st = st)
   \<and> link_input (link_onChange v st) = Some v
   \<and> link_deps (link_onChange v st) = link_deps st"
  by (auto simp: link_mount_def link_render_def link_effect_def link_onChange_def
      internalLink_of_def onboarding_of_def split: option.splits)

theorem link_resync_witness:
  "link_input (link_render (Some (2, sample_settings))
     (link_onChange ''https://typing'' (link_mount (Some (1, sample_settings))))) =
   Some ''https://old.example''"
proof -
  have new_object:
    "Some (2::nat) \<noteq>
     link_deps (link_onChange ''https://typing'' (link_mount (Some (1, sample_settings))))"
    by (simp add: link_onChange_def link_mount_def)
  have link: "internalLink_of (Some sample_settings) = Some ''https://old.example''"
    by (simp add: internalLink_of_def onboarding_of_def sample_settings_def get_prop_def)
  from link_resync [of "Some (1, sample_settings)" 2
         "link_onChange ''https://typing'' (link_mount (Some (1, sample_settings)))"
         sample_settings "''x''"]
       new_object
  have "link_input (link_render (Some (2, sample_settings))
          (link_onChange ''https://typing'' (link_mount (Some (1, sample_settings))))) =
        internalLink_of (Some sample_settings)"
    by blast
  then show ?thesis by (simp add: link)
qed

text \<open>
  Claim C6 as it is written has a refetch never overwrite what the user is typing.
  Mount the page on the sample settings, type into the input, and let a refetch
  deliver a settings object in which only the welcome message was switched off: the
  input is back at the remote link and the typed text is gone.
\<close>

theorem link_resync_counterexample:
  "link_input (link_onChange ''https://typing'' (link_mount (Some (1, sample_settings)))) =
     Some ''https://typing''
   \<and> link_input (link_render (Some (2, sample_settings_disabled))
       (link_onChange ''https://typing'' (link_mount (Some (1, sample_settings))))) =
     Some ''https://old.example''
   \<and> internalLink_of (Some sample_settings) = internalLink_of (Some sample_settings_disabled)"
  by (simp add: link_onChange_def link_mount_def link_render_def link_effect_def
      sample_settings_disabled_def sample_settings_def
      internalLink_of_def onboarding_of_def get_prop_def)


section \<open>The preview without a message\<close>

lemma preview_without_message_tree:
  "\<not> truthy_string (message_of (welcomeMessage_of s)) \<Longrightarrow>
   WelcomeMessagePreview s disabled has_setter hideHeader =
     Div [Div ((if \<not> truthy_bool hideHeader then [Heading2 ''Welcome to Gitpod''] else []) @
               (if has_setter then [Button ''Edit'' (truthy_bool disabled)] else [])),
          Subheading gitpodWelcomeSubheading]"
  by (simp add: WelcomeMessagePreview_def truthy_string_def Let_def split: option.splits)

text \<open>
  Claim C9. When the message of the settings is empty or undefined, the preview renders
  the header row and the subheading and nothing else, whatever the settings hold as
  resolved avatar URL: no element of the tree is an image or a markdown body. Unless
  \<^verbatim>\<open>hideHeader\<close> is set, the heading "Welcome to Gitpod" and the subheading are both
  among the elements. (The subheading is rendered in either case; \<^verbatim>\<open>hideHeader\<close> drops
  the heading only.)
\<close>

theorem preview_without_message:
  assumes "\<not> truthy_string (message_of (welcomeMessage_of s))"
  shows "filter message_part (elements (WelcomeMessagePreview s disabled has_setter hideHeader)) = []
       \<and> WelcomeMessagePreview s disabled has_setter hideHeader =
           Div [Div ((if \<not> truthy_bool hideHeader then [Heading2 ''Welcome to Gitpod''] else []) @
                     (if has_setter then [Button ''Edit'' (truthy_bool disabled)] else [])),
                Subheading gitpodWelcomeSubheading]
       \<and> (\<not> truthy_bool hideHeader \<longrightarrow>
             Heading2 ''Welcome to Gitpod'' \<in>
               set (elements (WelcomeMessagePreview s disabled has_setter hideHeader))
             \<and> Subheading gitpodWelcomeSubheading \<in>
               set (elements (WelcomeMessagePreview s disabled has_setter hideHeader)))"
  by (simp add: preview_without_message_tree [OF assms])

theorem preview_without_message_witness:
  "avatarUrl_of (welcomeMessage_of (Some avatar_only_settings)) = Some ''a1.png''
   \<and> WelcomeMessagePreview (Some avatar_only_settings) None True None =
       Div [Div [Heading2 ''Welcome to Gitpod'', Button ''Edit'' False],
            Subheading gitpodWelcomeSubheading]"
proof -
  have empty_message:
    "\<not> truthy_string (message_of (welcomeMessage_of (Some avatar_only_settings)))"
    by (simp add: avatar_only_settings_def truthy_string_def message_of_def
        welcomeMessage_of_def onboarding_of_def get_prop_def)
  have avatar: "avatarUrl_of (welcomeMessage_of (Some avatar_only_settings)) = Some ''a1.png''"
    by (simp add: avatar_only_settings_def avatarUrl_of_def welcomeMessage_of_def
        onboarding_of_def get_prop_def)
  from preview_without_message [OF empty_message, of None True None] avatar
  show ?thesis by (simp add: truthy_bool_def)
qed


section \<open>The join modal with the welcome message off\<close>

text \<open>
  Claim C10, as the code has it. When \<open>enabled\<close> of the welcome message is false or
  absent, the join modal renders nothing and sets its pending state to false. When
  \<^verbatim>\<open>localStorage\<close> is available it also removes the key \<^verbatim>\<open>newUserOnboardingPending\<close> and
  leaves the rest of the storage alone; the flag then reads as not pending, and a later
  mount on that browser shows no visible modal, whatever the settings are then. When
  storage is not available the browser is left as it is.
\<close>

theorem join_modal_disabled:
  assumes "\<not> truthy_bool (enabled_of (welcomeMessage_of s))"
  shows "fst (OrganizationJoinModal s b) = RenderNull
       \<and> snd (snd (OrganizationJoinModal s b)) = False
       \<and> (storageAvailable b \<longrightarrow>
            fst (snd (OrganizationJoinModal s b)) =
              b\<lparr>localStorage := (localStorage b)(''newUserOnboardingPending'' := None)\<rparr>
            \<and> initialOrgOnboardingPending (fst (snd (OrganizationJoinModal s b))) = Some False
            \<and> fst (OrganizationJoinModal s2 (fst (snd (OrganizationJoinModal s b)))) \<noteq>
                RenderModal True)
       \<and> (\<not> storageAvailable b \<longrightarrow> fst (snd (OrganizationJoinModal s b)) = b)"
  using assms
  by (simp add: OrganizationJoinModal_def dismissOrgOnboardingPending_def
      initialOrgOnboardingPending_def or_false_def Let_def)

theorem join_modal_disabled_witness:
  "OrganizationJoinModal (Some sample_settings_disabled) (flagged_browser True) =
     (RenderNull, \<lparr>storageAvailable = True, localStorage = Map.empty\<rparr>, False)"
proof -
  have off:
    "\<not> truthy_bool (enabled_of (welcomeMessage_of (Some sample_settings_disabled)))"
    by (simp add: sample_settings_disabled_def truthy_bool_def enabled_of_def
        welcomeMessage_of_def onboarding_of_def get_prop_def)
  from join_modal_disabled [OF off, of "flagged_browser True" None]
  show ?thesis
    by (cases "OrganizationJoinModal (Some sample_settings_disabled) (flagged_browser True)")
       (auto simp: flagged_browser_def)
qed

text \<open>
  Claim C10 as it is written has the persisted flag cleared in every case. In a browser
  whose storage holds the flag but is reported as not available, the modal leaves the
  flag where it is; once the storage is available again and the welcome message is
  enabled, the modal is shown.
\<close>

theorem join_modal_disabled_counterexample:
  "fst (OrganizationJoinModal (Some sample_settings_disabled) (flagged_browser False)) = RenderNull
   \<and> localStorage
       (fst (snd (OrganizationJoinModal (Some sample_settings_disabled) (flagged_browser False))))
       ''newUserOnboardingPending'' = Some ''true''
   \<and> fst (OrganizationJoinModal (Some sample_settings)
       ((fst (snd (OrganizationJoinModal (Some sample_settings_disabled) (flagged_browser False))))
          \<lparr>storageAvailable := True\<rparr>)) = RenderModal True"
  by (simp add: OrganizationJoinModal_def dismissOrgOnboardingPending_def
      initialOrgOnboardingPending_def or_false_def Let_def flagged_browser_def
      sample_settings_disabled_def sample_settings_def sample_welcome_def truthy_bool_def
      enabled_of_def welcomeMessage_of_def onboarding_of_def get_prop_def)

end
